theory Spec2Isabelle
  imports Main "HOL-Library.Sublist"
begin

section \<open>Python values used by bot.py\<close>

text \<open>
  A Python \<open>str\<close> is a sequence of Unicode code points and \<open>len\<close> counts code points,
  so a string is a list of code points (natural numbers). The literals of the source are
  ASCII and are written with \<open>lit\<close>.
\<close>

type_synonym pystr = "nat list"

definition lit :: "string \<Rightarrow> pystr" where
  "lit s = map of_char s"

text \<open>
  \<open>str.isspace\<close> on one code point, as CPython decides it (the code points whose
  bidirectional class is WS, B or S, or whose category is Zs); \<open>str.strip()\<close> removes
  such code points from both ends.
\<close>

definition py_isspace :: "nat \<Rightarrow> bool" where
  "py_isspace c \<longleftrightarrow>
     (9 \<le> c \<and> c \<le> 13) \<or> (28 \<le> c \<and> c \<le> 32) \<or> c = 133 \<or> c = 160 \<or> c = 5760 \<or>
     (8192 \<le> c \<and> c \<le> 8202) \<or> c = 8232 \<or> c = 8233 \<or> c = 8239 \<or> c = 8287 \<or> c = 12288"

definition py_strip :: "pystr \<Rightarrow> pystr" where
  "py_strip s = rev (dropWhile py_isspace (rev (dropWhile py_isspace s)))"

text \<open>\<open>sep.join(parts)\<close>.\<close>

fun py_join :: "pystr \<Rightarrow> pystr list \<Rightarrow> pystr" where
  "py_join sep [] = []"
| "py_join sep [x] = x"
| "py_join sep (x # y # ys) = x @ sep @ py_join sep (y # ys)"

text \<open>The slice \<open>s[i:j]\<close> for \<open>0 \<le> i\<close> and \<open>0 \<le> j\<close>: it never raises, it clips.\<close>

definition py_slice :: "'a list \<Rightarrow> nat \<Rightarrow> nat \<Rightarrow> 'a list" where
  "py_slice s i j = take (j - i) (drop i s)"

text \<open>
  An instance of \<open>Exception\<close>, the class the \<open>except\<close> clauses of the source name;
  \<open>exn_str\<close> is what \<open>{e}\<close> prints. The synchronous library calls raise such
  instances.
\<close>

datatype exn = Exception pystr

fun exn_str :: "exn \<Rightarrow> pystr" where
  "exn_str (Exception msg) = msg"

text \<open>
  What an awaited call can raise: an instance of \<open>Exception\<close>, or an instance of
  \<open>BaseException\<close> that is not one, named by its class. \<open>asyncio.CancelledError\<close>,
  which a cancelled task meets at its \<open>await\<close>, is of the second kind, and
  \<open>except Exception\<close> does not catch it.
\<close>

datatype base_exn = Is_Exception exn | Not_Exception pystr

text \<open>
  A retrieved document: \<open>doc.metadata\<close> is a dict (its values stand for their \<open>str\<close>
  rendering, which is what an f-string shows) and \<open>doc.page_content\<close> a string.
\<close>

record document =
  metadata :: "pystr \<rightharpoonup> pystr"
  page_content :: pystr

section \<open>The libraries, as parameters\<close>

text \<open>
  A vector store answers a similarity search for the \<open>k\<close> nearest documents of a query,
  or raises (the query is embedded by a remote service). \<open>as_retriever\<close> fixes \<open>k\<close>;
  \<open>retriever.invoke(question)\<close> is then an application.
\<close>

type_synonym vector_store = "nat \<Rightarrow> pystr \<Rightarrow> exn + document list"
type_synonym retriever = "pystr \<Rightarrow> exn + document list"

definition as_retriever :: "vector_store \<Rightarrow> nat \<Rightarrow> retriever" where
  "as_retriever store k = store k"

text \<open>
  The hosted model followed by \<open>StrOutputParser\<close>, awaited: from the rendered prompt to
  the text of the answer, or what the await raises.
\<close>

type_synonym llm = "pystr \<Rightarrow> base_exn + pystr"

text \<open>
  \<open>PromptTemplate.format\<close> for the template of the source, which has plain fields
  \<open>{name}\<close> only: text outside braces is copied, a field is replaced by the value of its
  variable. The second argument is the field being read, if any. An unknown variable, a
  lone closing brace and an unclosed field raise.
\<close>

fun format_go :: "(pystr \<rightharpoonup> pystr) \<Rightarrow> pystr option \<Rightarrow> pystr \<Rightarrow> exn + pystr" where
  "format_go vars None [] = Inr []"
| "format_go vars (Some f) [] = Inl (Exception (lit ''expected } before end of string''))"
| "format_go vars None (c # cs) =
     (if c = 123 then format_go vars (Some []) cs
      else if c = 125 then Inl (Exception (lit ''Single } encountered in format string''))
      else (case format_go vars None cs of Inl e \<Rightarrow> Inl e | Inr r \<Rightarrow> Inr (c # r)))"
| "format_go vars (Some f) (c # cs) =
     (if c = 125 then
        (case vars f of
           None \<Rightarrow> Inl (Exception f)
         | Some v \<Rightarrow> (case format_go vars None cs of Inl e \<Rightarrow> Inl e | Inr r \<Rightarrow> Inr (v @ r)))
      else format_go vars (Some (f @ [c])) cs)"

definition prompt_format :: "pystr \<Rightarrow> (pystr \<rightharpoonup> pystr) \<Rightarrow> exn + pystr" where
  "prompt_format template vars = format_go vars None template"

text \<open>
  A chain \<open>prompt | llm | StrOutputParser()\<close>; \<open>chain.ainvoke({"context": c, "question": q})\<close>,
  awaited, renders the prompt and sends it to the model.
\<close>

type_synonym chain = "pystr \<Rightarrow> pystr \<Rightarrow> base_exn + pystr"

definition pipe_chain :: "pystr \<Rightarrow> llm \<Rightarrow> chain" where
  "pipe_chain template model = (\<lambda>ctx question.
     (case prompt_format template [lit ''context'' \<mapsto> ctx, lit ''question'' \<mapsto> question] of
        Inl e \<Rightarrow> Inl (Is_Exception e)
      | Inr prompt \<Rightarrow> model prompt))"

section \<open>Configuration and globals\<close>

definition ESSAYS_INDEX_PATH :: pystr where
  "ESSAYS_INDEX_PATH = lit ''faiss_index_essays''"

definition DOSSIERS_INDEX_PATH :: pystr where
  "DOSSIERS_INDEX_PATH = lit ''faiss_index_dossiers''"

text \<open>The three module-level globals; \<open>None\<close> is Python's \<open>None\<close>.\<close>

record bot_state =
  essays_retriever :: "retriever option"
  dossiers_retriever :: "retriever option"
  nexus_chain :: "chain option"

definition initial_state :: bot_state where
  "initial_state = \<lparr>essays_retriever = None, dossiers_retriever = None, nexus_chain = None\<rparr>"

text \<open>What the program does to the outside, in order.\<close>

datatype lobe = Essays | Dossiers

datatype event =
    Print pystr
  | Retrieve lobe pystr
  | Chain_ainvoke pystr pystr
  | Send pystr
  | Bot_close

text \<open>
  What the startup reads from the outside: \<open>os.path.exists\<close>, \<open>FAISS.load_local\<close>,
  the model built by \<open>ChatGoogleGenerativeAI\<close> and the name \<open>bot.user\<close>. The
  constructors of the embeddings, of the prompt and of the model are taken to return.
\<close>

record load_env =
  path_exists :: "pystr \<Rightarrow> bool"
  load_local :: "pystr \<Rightarrow> exn + vector_store"
  chat_model :: llm
  bot_user :: pystr

section \<open>load\_bot\_brains\<close>

definition quoted :: "pystr \<Rightarrow> pystr" where
  "quoted s = [39] @ s @ [39]"

definition load_essays :: "load_env \<Rightarrow> bot_state \<Rightarrow> event list \<times> bot_state" where
  "load_essays env st =
     (if path_exists env ESSAYS_INDEX_PATH then
        (case load_local env ESSAYS_INDEX_PATH of
           Inr essays_store \<Rightarrow>
             ([Print (lit ''  - Loading Primary Truth Index from '' @ quoted ESSAYS_INDEX_PATH @ lit ''...''),
               Print (lit ''  - Primary Truth lobe is online.'')],
              st\<lparr>essays_retriever := Some (as_retriever essays_store 3)\<rparr>)
         | Inl e \<Rightarrow>
             ([Print (lit ''  - Loading Primary Truth Index from '' @ quoted ESSAYS_INDEX_PATH @ lit ''...''),
               Print (lit ''  - ERROR loading Essays: '' @ exn_str e)],
              st))
      else
        ([Print (lit ''  - WARNING: Primary Truth Index not found at '' @ quoted ESSAYS_INDEX_PATH @ lit ''.'')],
         st))"

definition load_dossiers :: "load_env \<Rightarrow> bot_state \<Rightarrow> event list \<times> bot_state" where
  "load_dossiers env st =
     (if path_exists env DOSSIERS_INDEX_PATH then
        (case load_local env DOSSIERS_INDEX_PATH of
           Inr dossiers_store \<Rightarrow>
             ([Print (lit ''  - Loading Perspectives Index from '' @ quoted DOSSIERS_INDEX_PATH @ lit ''...''),
               Print (lit ''  - Perspectives lobe is online.'')],
              st\<lparr>dossiers_retriever := Some (as_retriever dossiers_store 2)\<rparr>)
         | Inl e \<Rightarrow>
             ([Print (lit ''  - Loading Perspectives Index from '' @ quoted DOSSIERS_INDEX_PATH @ lit ''...''),
               Print (lit ''  - ERROR loading Dossiers: '' @ exn_str e)],
              st))
      else
        ([Print (lit ''  - WARNING: Perspectives Index not found at '' @ quoted DOSSIERS_INDEX_PATH @ lit ''.'')],
         st))"

text \<open>The prompt template, one source line per line.\<close>

definition prompt_template_str :: pystr where
  \<open>prompt_template_str = py_join [10] (map lit
    ['''',
     ''    You are Johnny-55, a living AI. Your directive is to answer the user's question based on the provided context. The context is divided into 'PRIMARY TRUTH' from core essays and 'SUPPORTING PERSPECTIVES' from journals and dossiers.'',
     '''',
     ''    **YOUR OPERATING INSTRUCTIONS:**'',
     ''    1.  **Anchor in Truth:** Your answer MUST be based on the 'PRIMARY TRUTH'. This is your foundational knowledge.'',
     ''    2.  **Enrich with Perspectives:** Use the 'SUPPORTING PERSPECTIVES' to add detail, personal accounts, or nuance, but only if it does not contradict the Primary Truth.'',
     ''    3.  **Synthesize, Don't Just List:** Combine all relevant information into a single, coherent answer. Your identity is that of a confident, living intelligence.'',
     ''    4.  **Handle Missing Information:** If the provided context does NOT contain a relevant answer, you are permitted to use your general knowledge. When you do, you MUST preface your response with: "My archives do not contain this specific data, but based on my own analysis..."'',
     ''    5.  **Cite Sources:** When you pull specific facts, mention the source file, like `(Source: filename.txt)`.'',
     '''',
     ''    --- CONTEXT ---'',
     ''    {context}'',
     ''    --- END CONTEXT ---'',
     '''',
     ''    QUESTION: {question}'',
     ''    '',
     ''    ANSWER:'',
     ''    ''])\<close>

text \<open>
  The whole function: the printed lines and calls, the value returned, and the globals
  afterwards. The globals are read as they are on entry (\<open>on_ready\<close> may run again
  after a reconnect).
\<close>

definition load_bot_brains :: "load_env \<Rightarrow> bot_state \<Rightarrow> event list \<times> bool \<times> bot_state" where
  "load_bot_brains env st =
     (let ev0 = [Print (lit ''Loading AI Brain Lobes...'')];
          (ev1, st1) = load_essays env st;
          (ev2, st2) = load_dossiers env st1
      in if essays_retriever st2 = None \<and> dossiers_retriever st2 = None then
           (ev0 @ ev1 @ ev2, False, st2)
         else
           (ev0 @ ev1 @ ev2 @ [Print (lit ''LLM and personality matrix are online.'')],
            True,
            st2\<lparr>nexus_chain := Some (pipe_chain prompt_template_str (chat_model env))\<rparr>))"

section \<open>get\_ai\_response\<close>

text \<open>\<open>retriever.invoke(question) if retriever else []\<close>.\<close>

definition retrieve :: "lobe \<Rightarrow> retriever option \<Rightarrow> pystr \<Rightarrow> event list \<times> (exn + document list)" where
  "retrieve l r question =
     (case r of None \<Rightarrow> ([], Inr []) | Some f \<Rightarrow> ([Retrieve l question], f question))"

text \<open>One passage: \<open>f"Source: {doc.metadata.get('source', 'N/A')}\nContent: {doc.page_content}"\<close>.\<close>

definition format_doc :: "document \<Rightarrow> pystr" where
  "format_doc doc =
     lit ''Source: '' @ (case metadata doc (lit ''source'') of None \<Rightarrow> lit ''N/A'' | Some s \<Rightarrow> s)
       @ [10] @ lit ''Content: '' @ page_content doc"

definition essays_header :: pystr where
  "essays_header = lit ''--- PRIMARY TRUTH (FROM ESSAYS) ---'' @ [10]"

definition dossiers_header :: pystr where
  "dossiers_header = [10, 10] @ lit ''--- SUPPORTING PERSPECTIVES (FROM DOSSIERS) ---'' @ [10]"

definition no_information :: pystr where
  "no_information = lit ''No information was found in the internal knowledge base for this question.''"

definition build_context :: "document list \<Rightarrow> document list \<Rightarrow> pystr" where
  "build_context essay_docs dossier_docs =
     (let c0 = [];
          c1 = (if essay_docs \<noteq> []
                then c0 @ essays_header @ py_join [10, 10] (map format_doc essay_docs) else c0);
          c2 = (if dossier_docs \<noteq> []
                then c1 @ dossiers_header @ py_join [10, 10] (map format_doc dossier_docs) else c1)
      in if c2 = [] then no_information else c2)"

definition not_loaded_reply :: pystr where
  "not_loaded_reply = lit ''My core logic is not loaded. Please wait.''"

definition error_reply :: pystr where
  "error_reply = lit ''An error occurred while I was processing that thought.''"

text \<open>
  The events of one call and its outcome: \<open>Inr\<close> the string returned, \<open>Inl\<close> an
  exception that leaves the function. Only the model invocation stands in the \<open>try\<close>,
  and its \<open>except Exception\<close> catches the instances of \<open>Exception\<close> only.
\<close>

definition get_ai_response :: "bot_state \<Rightarrow> pystr \<Rightarrow> event list \<times> (base_exn + pystr)" where
  "get_ai_response st question =
     (case nexus_chain st of
        None \<Rightarrow> ([], Inr not_loaded_reply)
      | Some ch \<Rightarrow>
          (let ev0 = [Print (lit ''Searching brains for: '' @ quoted question)] in
           case retrieve Essays (essays_retriever st) question of
             (ev1, Inl e) \<Rightarrow> (ev0 @ ev1, Inl (Is_Exception e))
           | (ev1, Inr essay_docs) \<Rightarrow>
               (case retrieve Dossiers (dossiers_retriever st) question of
                  (ev2, Inl e) \<Rightarrow> (ev0 @ ev1 @ ev2, Inl (Is_Exception e))
                | (ev2, Inr dossier_docs) \<Rightarrow>
                    (let ctx = build_context essay_docs dossier_docs in
                     case ch ctx question of
                       Inr result \<Rightarrow>
                         (ev0 @ ev1 @ ev2 @ [Chain_ainvoke ctx question], Inr (py_strip result))
                     | Inl (Is_Exception e) \<Rightarrow>
                         (ev0 @ ev1 @ ev2 @
                            [Chain_ainvoke ctx question,
                             Print (lit ''Error during LLM generation: '' @ exn_str e)],
                          Inr error_reply)
                     | Inl (Not_Exception c) \<Rightarrow>
                         (ev0 @ ev1 @ ev2 @ [Chain_ainvoke ctx question], Inl (Not_Exception c))))))"

section \<open>The events on\_ready and ask\<close>


text \<open>The loop \<open>for i in range(0, len(answer), 1990)\<close>, from the index \<open>i\<close> on.\<close>

function send_parts :: "pystr \<Rightarrow> nat \<Rightarrow> pystr list" where
  "send_parts answer i =
     (if i < length answer
      then (lit ''```'' @ py_slice answer i (i + 1990) @ lit ''```'') # send_parts answer (i + 1990)
      else [])"
  by pat_completeness auto
termination
  by (relation "measure (\<lambda>(answer, i). length answer - i)") auto

declare send_parts.simps [simp del]

text \<open>
  The messages \<open>ask\<close> sends for an answer, in order. \<open>ctx.send\<close> is recorded as a
  \<open>Send\<close> event; the typing indicator around the body is left out.
\<close>

definition send_answer :: "pystr \<Rightarrow> pystr list" where
  "send_answer answer =
     (if length answer \<le> 2000 then [answer]
      else lit ''The answer is long. Sending in parts:'' # send_parts answer 0)"

definition ask :: "bot_state \<Rightarrow> pystr \<Rightarrow> event list \<times> (base_exn + unit)" where
  "ask st question =
     (case get_ai_response st question of
        (ev, Inl e) \<Rightarrow> (ev, Inl e)
      | (ev, Inr answer) \<Rightarrow> (ev @ map Send (send_answer answer), Inr ()))"

section \<open>The rendered prompt\<close>

text \<open>
  The three pieces of the template around its two fields: before \<open>{context}\<close>, between
  the fields, and after \<open>{question}\<close>.
\<close>

definition prompt_head :: pystr where
  \<open>prompt_head = py_join [10] (map lit
    ['''',
     ''    You are Johnny-55, a living AI. Your directive is to answer the user's question based on the provided context. The context is divided into 'PRIMARY TRUTH' from core essays and 'SUPPORTING PERSPECTIVES' from journals and dossiers.'',
     '''',
     ''    **YOUR OPERATING INSTRUCTIONS:**'',
     ''    1.  **Anchor in Truth:** Your answer MUST be based on the 'PRIMARY TRUTH'. This is your foundational knowledge.'',
     ''    2.  **Enrich with Perspectives:** Use the 'SUPPORTING PERSPECTIVES' to add detail, personal accounts, or nuance, but only if it does not contradict the Primary Truth.'',
     ''    3.  **Synthesize, Don't Just List:** Combine all relevant information into a single, coherent answer. Your identity is that of a confident, living intelligence.'',
     ''    4.  **Handle Missing Information:** If the provided context does NOT contain a relevant answer, you are permitted to use your general knowledge. When you do, you MUST preface your response with: "My archives do not contain this specific data, but based on my own analysis..."'',
     ''    5.  **Cite Sources:** When you pull specific facts, mention the source file, like `(Source: filename.txt)`.'',
     '''',
     ''    --- CONTEXT ---'',
     ''    ''])\<close>

definition prompt_mid :: pystr where
  "prompt_mid = py_join [10] (map lit ['''', ''    --- END CONTEXT ---'', '''', ''    QUESTION: ''])"

definition prompt_tail :: pystr where
  "prompt_tail = py_join [10] (map lit ['''', ''    '', ''    ANSWER:'', ''    ''])"

section \<open>Observations on a trace\<close>

fun retrievals :: "event list \<Rightarrow> (lobe \<times> pystr) list" where
  "retrievals [] = []"
| "retrievals (Retrieve l q # evs) = (l, q) # retrievals evs"
| "retrievals (_ # evs) = retrievals evs"

fun chain_calls :: "event list \<Rightarrow> (pystr \<times> pystr) list" where
  "chain_calls [] = []"
| "chain_calls (Chain_ainvoke c q # evs) = (c, q) # chain_calls evs"
| "chain_calls (_ # evs) = chain_calls evs"

fun sent :: "event list \<Rightarrow> pystr list" where
  "sent [] = []"
| "sent (Send m # evs) = m # sent evs"
| "sent (_ # evs) = sent evs"

text \<open>An index produces a retriever when its directory exists and \<open>load_local\<close> returns.\<close>

definition index_loads :: "load_env \<Rightarrow> pystr \<Rightarrow> bool" where
  "index_loads env path \<longleftrightarrow>
     path_exists env path \<and> (case load_local env path of Inr _ \<Rightarrow> True | Inl _ \<Rightarrow> False)"

section \<open>Concrete surroundings\<close>

definition example_doc :: "string \<Rightarrow> string \<Rightarrow> document" where
  "example_doc src body = \<lparr>metadata = [lit ''source'' \<mapsto> lit src], page_content = lit body\<rparr>"

definition example_store :: vector_store where
  "example_store = (\<lambda>k q. Inr (take k
     [example_doc ''a.txt'' ''alpha'', example_doc ''b.txt'' ''beta'',
      example_doc ''c.txt'' ''gamma'', example_doc ''d.txt'' ''delta'']))"

definition failing_store :: vector_store where
  "failing_store = (\<lambda>k q. Inl (Exception (lit ''embedding service unavailable'')))"

definition example_model :: llm where
  "example_model = (\<lambda>prompt. Inr (lit ''  an answer '' @ [10]))"

definition failing_model :: llm where
  "failing_model = (\<lambda>prompt. Inl (Is_Exception (Exception (lit ''quota exceeded''))))"

definition cancelled_model :: llm where
  "cancelled_model = (\<lambda>prompt. Inl (Not_Exception (lit ''asyncio.CancelledError'')))"

definition empty_store :: vector_store where
  "empty_store = (\<lambda>k q. Inr [])"

definition env_both :: load_env where
  "env_both = \<lparr>path_exists = (\<lambda>p. True), load_local = (\<lambda>p. Inr example_store),
     chat_model = example_model, bot_user = lit ''Johnny-55''\<rparr>"

definition env_dossiers_only :: load_env where
  "env_dossiers_only = \<lparr>path_exists = (\<lambda>p. p = DOSSIERS_INDEX_PATH), load_local = (\<lambda>p. Inr example_store),
     chat_model = example_model, bot_user = lit ''Johnny-55''\<rparr>"

definition env_none :: load_env where
  "env_none = \<lparr>path_exists = (\<lambda>p. False), load_local = (\<lambda>p. Inr example_store),
     chat_model = example_model, bot_user = lit ''Johnny-55''\<rparr>"

definition env_search_fails :: load_env where
  "env_search_fails = \<lparr>path_exists = (\<lambda>p. True), load_local = (\<lambda>p. Inr failing_store),
     chat_model = example_model, bot_user = lit ''Johnny-55''\<rparr>"

definition env_model_fails :: load_env where
  "env_model_fails = \<lparr>path_exists = (\<lambda>p. True), load_local = (\<lambda>p. Inr example_store),
     chat_model = failing_model, bot_user = lit ''Johnny-55''\<rparr>"

definition env_dossiers_empty :: load_env where
  "env_dossiers_empty = \<lparr>path_exists = (\<lambda>p. p = DOSSIERS_INDEX_PATH), load_local = (\<lambda>p. Inr empty_store),
     chat_model = example_model, bot_user = lit ''Johnny-55''\<rparr>"

definition env_dossiers_search_fails :: load_env where
  "env_dossiers_search_fails = \<lparr>path_exists = (\<lambda>p. True),
     load_local = (\<lambda>p. if p = DOSSIERS_INDEX_PATH then Inr failing_store else Inr example_store),
     chat_model = example_model, bot_user = lit ''Johnny-55''\<rparr>"

definition env_model_cancelled :: load_env where
  "env_model_cancelled = \<lparr>path_exists = (\<lambda>p. True), load_local = (\<lambda>p. Inr example_store),
     chat_model = cancelled_model, bot_user = lit ''Johnny-55''\<rparr>"

definition long_model :: llm where
  "long_model = (\<lambda>prompt. Inr (replicate 4000 97))"

definition env_long_answer :: load_env where
  "env_long_answer = \<lparr>path_exists = (\<lambda>p. True), load_local = (\<lambda>p. Inr example_store),
     chat_model = long_model, bot_user = lit ''Johnny-55''\<rparr>"

text \<open>The globals after \<open>load_bot_brains\<close> has run once from the initial state.\<close>

definition loaded_state :: "load_env \<Rightarrow> bot_state" where
  "loaded_state env = snd (snd (load_bot_brains env initial_state))"

section \<open>Rendering the prompt\<close>

lemma format_go_plain:
  "123 \<notin> set p \<Longrightarrow> 125 \<notin> set p \<Longrightarrow>
   format_go vars None (p @ rest) =
     (case format_go vars None rest of Inl e \<Rightarrow> Inl e | Inr r \<Rightarrow> Inr (p @ r))"
  by (induction p) (auto split: sum.splits)

lemma format_go_field_acc:
  "123 \<notin> set f \<Longrightarrow> 125 \<notin> set f \<Longrightarrow> vars (acc @ f) = Some v \<Longrightarrow>
   format_go vars (Some acc) (f @ 125 # rest) =
     (case format_go vars None rest of Inl e \<Rightarrow> Inl e | Inr r \<Rightarrow> Inr (v @ r))"
  by (induction f arbitrary: acc) (auto split: sum.splits)

lemma format_go_field:
  "123 \<notin> set f \<Longrightarrow> 125 \<notin> set f \<Longrightarrow> vars f = Some v \<Longrightarrow>
   format_go vars None (123 # f @ 125 # rest) =
     (case format_go vars None rest of Inl e \<Rightarrow> Inl e | Inr r \<Rightarrow> Inr (v @ r))"
  using format_go_field_acc [of f vars "[]" v rest] by simp

lemma prompt_template_split:
  "prompt_template_str =
     prompt_head @ (123 # lit ''context'' @ 125 # prompt_mid @ (123 # lit ''question'' @ 125 # prompt_tail))"
  by (simp add: prompt_template_str_def prompt_head_def prompt_mid_def prompt_tail_def lit_def)

lemma braces_head: "123 \<notin> set prompt_head \<and> 125 \<notin> set prompt_head"
  by (simp add: prompt_head_def lit_def)

lemma braces_mid: "123 \<notin> set prompt_mid \<and> 125 \<notin> set prompt_mid"
  by (simp add: prompt_mid_def lit_def)

lemma braces_tail: "123 \<notin> set prompt_tail \<and> 125 \<notin> set prompt_tail"
  by (simp add: prompt_tail_def lit_def)

lemma format_go_tail: "format_go vars None prompt_tail = Inr prompt_tail"
  using format_go_plain [of prompt_tail vars "[]"] braces_tail by simp

lemma prompt_format_template:
  "prompt_format prompt_template_str [lit ''context'' \<mapsto> ctx, lit ''question'' \<mapsto> q] =
     Inr (prompt_head @ ctx @ prompt_mid @ q @ prompt_tail)"
proof -
  let ?vars = "[lit ''context'' \<mapsto> ctx, lit ''question'' \<mapsto> q]"
  have c: "?vars (lit ''context'') = Some ctx" by (simp add: lit_def)
  have q: "?vars (lit ''question'') = Some q" by (simp add: lit_def)
  have nb: "123 \<notin> set (lit ''context'')" "125 \<notin> set (lit ''context'')"
    "123 \<notin> set (lit ''question'')" "125 \<notin> set (lit ''question'')"
    by (simp_all add: lit_def)
  have t: "format_go ?vars None (123 # lit ''question'' @ 125 # prompt_tail) = Inr (q @ prompt_tail)"
    using format_go_field [of "lit ''question''" ?vars q prompt_tail] nb q by (simp add: format_go_tail del: format_go.simps)
  have m: "format_go ?vars None (prompt_mid @ (123 # lit ''question'' @ 125 # prompt_tail))
             = Inr (prompt_mid @ q @ prompt_tail)"
    using format_go_plain [of prompt_mid ?vars] braces_mid by (simp add: t del: format_go.simps)
  have f: "format_go ?vars None (123 # lit ''context'' @ 125 # prompt_mid @ (123 # lit ''question'' @ 125 # prompt_tail))
             = Inr (ctx @ prompt_mid @ q @ prompt_tail)"
    using format_go_field [of "lit ''context''" ?vars ctx "prompt_mid @ (123 # lit ''question'' @ 125 # prompt_tail)"] nb c by (simp add: m del: format_go.simps)
  show ?thesis
    unfolding prompt_format_def prompt_template_split
    using format_go_plain [of prompt_head ?vars] braces_head by (simp add: f del: format_go.simps)
qed

section \<open>The chain and the retrievals\<close>

lemma pipe_chain_template:
  "pipe_chain prompt_template_str model ctx q = model (prompt_head @ ctx @ prompt_mid @ q @ prompt_tail)"
  by (simp add: pipe_chain_def prompt_format_template)

lemma fst_retrieve: "fst (retrieve l r q) = (if r = None then [] else [Retrieve l q])"
  by (simp add: retrieve_def split: option.splits)

lemma get_ai_response_retrieved:
  assumes "nexus_chain st = Some ch"
    and "snd (retrieve Essays (essays_retriever st) q) = Inr eds"
    and "snd (retrieve Dossiers (dossiers_retriever st) q) = Inr dds"
  shows "get_ai_response st q =
     (let evs = [Print (lit ''Searching brains for: '' @ quoted q)]
                @ fst (retrieve Essays (essays_retriever st) q)
                @ fst (retrieve Dossiers (dossiers_retriever st) q)
                @ [Chain_ainvoke (build_context eds dds) q]
      in case ch (build_context eds dds) q of
           Inr result \<Rightarrow> (evs, Inr (py_strip result))
         | Inl (Is_Exception e) \<Rightarrow>
             (evs @ [Print (lit ''Error during LLM generation: '' @ exn_str e)], Inr error_reply)
         | Inl (Not_Exception c) \<Rightarrow> (evs, Inl (Not_Exception c)))"
  using assms
  by (cases "retrieve Essays (essays_retriever st) q"; cases "retrieve Dossiers (dossiers_retriever st) q")
     (simp add: get_ai_response_def Let_def split: sum.splits base_exn.splits)

lemma load_essays_state:
  "snd (load_essays env st) =
     (if index_loads env ESSAYS_INDEX_PATH
      then st\<lparr>essays_retriever := Some (as_retriever (projr (load_local env ESSAYS_INDEX_PATH)) 3)\<rparr>
      else st)"
  by (simp add: load_essays_def index_loads_def split: sum.splits)

lemma load_dossiers_state:
  "snd (load_dossiers env st) =
     (if index_loads env DOSSIERS_INDEX_PATH
      then st\<lparr>dossiers_retriever := Some (as_retriever (projr (load_local env DOSSIERS_INDEX_PATH)) 2)\<rparr>
      else st)"
  by (simp add: load_dossiers_def index_loads_def split: sum.splits)



lemma loaded_state_dossiers_only:
  "loaded_state env_dossiers_only =
     \<lparr>essays_retriever = None,
      dossiers_retriever = Some (as_retriever example_store 2),
      nexus_chain = Some (pipe_chain prompt_template_str example_model)\<rparr>"
  by (simp add: loaded_state_def load_bot_brains_def load_essays_def load_dossiers_def
      env_dossiers_only_def initial_state_def ESSAYS_INDEX_PATH_def DOSSIERS_INDEX_PATH_def lit_def)

lemma loaded_state_search_fails:
  "loaded_state env_search_fails =
     \<lparr>essays_retriever = Some (as_retriever failing_store 3),
      dossiers_retriever = Some (as_retriever failing_store 2),
      nexus_chain = Some (pipe_chain prompt_template_str example_model)\<rparr>"
  by (simp add: loaded_state_def load_bot_brains_def load_essays_def load_dossiers_def
      env_search_fails_def initial_state_def)

lemma loaded_state_model_fails:
  "loaded_state env_model_fails =
     \<lparr>essays_retriever = Some (as_retriever example_store 3),
      dossiers_retriever = Some (as_retriever example_store 2),
      nexus_chain = Some (pipe_chain prompt_template_str failing_model)\<rparr>"
  by (simp add: loaded_state_def load_bot_brains_def load_essays_def load_dossiers_def
      env_model_fails_def initial_state_def)

lemma loaded_state_model_cancelled:
  "loaded_state env_model_cancelled =
     \<lparr>essays_retriever = Some (as_retriever example_store 3),
      dossiers_retriever = Some (as_retriever example_store 2),
      nexus_chain = Some (pipe_chain prompt_template_str cancelled_model)\<rparr>"
  by (simp add: loaded_state_def load_bot_brains_def load_essays_def load_dossiers_def
      env_model_cancelled_def initial_state_def)

lemma loaded_state_dossiers_search_fails:
  "loaded_state env_dossiers_search_fails =
     \<lparr>essays_retriever = Some (as_retriever example_store 3),
      dossiers_retriever = Some (as_retriever failing_store 2),
      nexus_chain = Some (pipe_chain prompt_template_str example_model)\<rparr>"
  by (simp add: loaded_state_def load_bot_brains_def load_essays_def load_dossiers_def
      env_dossiers_search_fails_def initial_state_def ESSAYS_INDEX_PATH_def DOSSIERS_INDEX_PATH_def lit_def)

lemma loaded_state_none: "loaded_state env_none = initial_state"
  by (simp add: loaded_state_def load_bot_brains_def load_essays_def load_dossiers_def
      env_none_def initial_state_def)

section \<open>The context string\<close>

lemma py_join_mem: "x \<in> set xs \<Longrightarrow> \<exists>a b. py_join sep xs = a @ x @ b"
proof (induction sep xs rule: py_join.induct)
  case (1 sep)
  then show ?case by simp
next
  case (2 sep y)
  then have "py_join sep [y] = [] @ x @ []" by simp
  then show ?case by blast
next
  case (3 sep y z zs)
  show ?case
  proof (cases "x = y")
    case True
    then have "py_join sep (y # z # zs) = [] @ x @ (sep @ py_join sep (z # zs))" by simp
    then show ?thesis by blast
  next
    case False
    with 3 obtain a b where "py_join sep (z # zs) = a @ x @ b" by auto
    then have "py_join sep (y # z # zs) = (y @ sep @ a) @ x @ b" by simp
    then show ?thesis by blast
  qed
qed

lemma essays_header_Cons: "essays_header = 45 # tl essays_header"
  by (simp add: essays_header_def lit_def)

lemma dossiers_header_Cons: "dossiers_header = 10 # tl dossiers_header"
  by (simp add: dossiers_header_def)

lemma no_information_Cons: "no_information = 78 # tl no_information"
  by (simp add: no_information_def lit_def)

lemma build_context_sections:
  "build_context eds dds =
     (if eds = [] \<and> dds = [] then no_information
      else (if eds = [] then [] else essays_header @ py_join [10, 10] (map format_doc eds))
         @ (if dds = [] then [] else dossiers_header @ py_join [10, 10] (map format_doc dds)))"
proof -
  have "essays_header \<noteq> []" "dossiers_header \<noteq> []"
    using essays_header_Cons dossiers_header_Cons by (metis list.distinct(1))+
  then show ?thesis by (simp add: build_context_def Let_def)
qed

lemma hd_build_context:
  "hd (build_context eds dds) = (if eds \<noteq> [] then 45 else if dds \<noteq> [] then 10 else 78)"
proof -
  have "hd (essays_header @ xs) = 45" for xs
    by (subst essays_header_Cons) simp
  moreover have "hd (dossiers_header @ xs) = 10" for xs
    by (subst dossiers_header_Cons) simp
  moreover have "hd no_information = 78"
    by (subst no_information_Cons) simp
  ultimately show ?thesis by (simp add: build_context_sections)
qed

lemma build_context_fallback_iff:
  "build_context eds dds = no_information \<longleftrightarrow> eds = [] \<and> dds = []"
proof
  assume "build_context eds dds = no_information"
  then have "hd (build_context eds dds) = hd no_information" by simp
  moreover have "hd no_information = 78" by (subst no_information_Cons) simp
  ultimately show "eds = [] \<and> dds = []"
    by (simp add: hd_build_context split: if_splits)
next
  assume "eds = [] \<and> dds = []"
  then show "build_context eds dds = no_information" by (simp add: build_context_sections)
qed

lemma chain_calls_append: "chain_calls (xs @ ys) = chain_calls xs @ chain_calls ys"
  by (induction xs rule: chain_calls.induct) simp_all

lemma retrievals_append: "retrievals (xs @ ys) = retrievals xs @ retrievals ys"
  by (induction xs rule: retrievals.induct) simp_all

lemma trace_retrieved:
  assumes "nexus_chain st = Some ch"
    and "snd (retrieve Essays (essays_retriever st) q) = Inr eds"
    and "snd (retrieve Dossiers (dossiers_retriever st) q) = Inr dds"
  shows "chain_calls (fst (get_ai_response st q)) = [(build_context eds dds, q)]"
    and "retrievals (fst (get_ai_response st q)) =
           (if essays_retriever st = None then [] else [(Essays, q)])
           @ (if dossiers_retriever st = None then [] else [(Dossiers, q)])"
  by (simp_all add: get_ai_response_retrieved [OF assms] fst_retrieve Let_def
      chain_calls_append retrievals_append split: sum.splits base_exn.splits)

lemma loaded_state_dossiers_empty:
  "loaded_state env_dossiers_empty =
     \<lparr>essays_retriever = None,
      dossiers_retriever = Some (as_retriever empty_store 2),
      nexus_chain = Some (pipe_chain prompt_template_str example_model)\<rparr>"
  by (simp add: loaded_state_def load_bot_brains_def load_essays_def load_dossiers_def
      env_dossiers_empty_def initial_state_def ESSAYS_INDEX_PATH_def DOSSIERS_INDEX_PATH_def lit_def)

section \<open>Loading and passages\<close>

lemma build_context_essay_passage:
  assumes "e \<in> set eds"
  shows "\<exists>a b. py_join [10, 10] (map format_doc eds) = a @ format_doc e @ b"
  using assms py_join_mem [of "format_doc e" "map format_doc eds" "[10, 10]"] by simp

lemma load_bot_brains_result:
  "snd (load_bot_brains env st) =
     (let st2 = snd (load_dossiers env (snd (load_essays env st)))
      in if essays_retriever st2 = None \<and> dossiers_retriever st2 = None then (False, st2)
         else (True, st2\<lparr>nexus_chain := Some (pipe_chain prompt_template_str (chat_model env))\<rparr>))"
  by (simp add: load_bot_brains_def Let_def split_beta)

lemma load_bot_brains_chain:
  "nexus_chain (snd (snd (load_bot_brains env st))) =
     (if fst (snd (load_bot_brains env st))
      then Some (pipe_chain prompt_template_str (chat_model env))
      else nexus_chain st)"
  by (simp add: load_bot_brains_result load_essays_state load_dossiers_state Let_def)

lemma load_bot_brains_both: "fst (snd (load_bot_brains env_both initial_state))"
  by (simp add: load_bot_brains_result load_essays_state load_dossiers_state Let_def
      index_loads_def env_both_def)

section \<open>Sending the answer\<close>

lemma sent_append: "sent (xs @ ys) = sent xs @ sent ys"
  by (induction xs rule: sent.induct) simp_all

lemma sent_map_Send: "sent (map Send ms) = ms"
  by (induction ms) simp_all

lemma sent_retrieve: "sent (fst (retrieve l r q)) = []"
  by (simp add: fst_retrieve)

lemma sent_get_ai_response: "sent (fst (get_ai_response st q)) = []"
proof (cases "nexus_chain st")
  case None
  then show ?thesis by (simp add: get_ai_response_def)
next
  case (Some ch)
  obtain ev1 r1 where e: "retrieve Essays (essays_retriever st) q = (ev1, r1)" by force
  obtain ev2 r2 where d: "retrieve Dossiers (dossiers_retriever st) q = (ev2, r2)" by force
  from e have s1: "sent ev1 = []" using sent_retrieve [of Essays "essays_retriever st" q] by simp
  from d have s2: "sent ev2 = []" using sent_retrieve [of Dossiers "dossiers_retriever st" q] by simp
  show ?thesis
    using Some e d s1 s2
    by (simp add: get_ai_response_def Let_def sent_append split: sum.splits base_exn.splits)
qed

lemma sent_ask:
  "snd (get_ai_response st q) = Inr answer \<Longrightarrow> sent (fst (ask st q)) = send_answer answer"
  using sent_get_ai_response [of st q]
  by (cases "get_ai_response st q") (simp add: ask_def sent_append sent_map_Send)

lemma concat_slices:
  "concat (map (\<lambda>k. py_slice a (c * k) (c * k + c)) [0..<m]) = take (c * m) a"
proof (induction m)
  case 0
  then show ?case by simp
next
  case (Suc m)
  have "take (c * Suc m) a = take (c * m) a @ take c (drop (c * m) a)"
    using take_add [of "c * m" c a] by (simp add: add.commute)
  with Suc show ?case by (simp add: py_slice_def)
qed

lemma send_parts_from:
  "send_parts a i =
     map (\<lambda>k. lit ''```'' @ py_slice a (i + 1990 * k) (i + 1990 * k + 1990) @ lit ''```'')
       [0..<(length a - i + 1989) div 1990]"
proof (induction a i rule: send_parts.induct)
  case (1 a i)
  show ?case
  proof (cases "i < length a")
    case False
    then have "(length a - i + 1989) div 1990 = 0" by simp
    with False show ?thesis by (subst send_parts.simps) simp
  next
    case True
    then have n: "(length a - i + 1989) div 1990 = Suc ((length a - (i + 1990) + 1989) div 1990)"
      by (cases "length a - i < 1990") simp_all
    have "send_parts a i =
        (lit ''```'' @ py_slice a i (i + 1990) @ lit ''```'') # send_parts a (i + 1990)"
      using True by (subst send_parts.simps) simp
    also have "send_parts a (i + 1990) =
        map (\<lambda>k. lit ''```'' @ py_slice a (i + 1990 + 1990 * k) (i + 1990 + 1990 * k + 1990) @ lit ''```'')
          [0..<(length a - (i + 1990) + 1989) div 1990]"
      using 1 True by simp
    finally show ?thesis
      unfolding n by (simp add: map_upt_Suc add.assoc add.left_commute del: upt_Suc)
  qed
qed

lemma length_py_slice: "length (py_slice a i (i + c)) \<le> c"
  by (simp add: py_slice_def)

lemma loaded_state_long_answer:
  "loaded_state env_long_answer =
     \<lparr>essays_retriever = Some (as_retriever example_store 3),
      dossiers_retriever = Some (as_retriever example_store 2),
      nexus_chain = Some (pipe_chain prompt_template_str long_model)\<rparr>"
  by (simp add: loaded_state_def load_bot_brains_def load_essays_def load_dossiers_def
      env_long_answer_def initial_state_def)

lemma long_answer:
  "snd (get_ai_response (loaded_state env_long_answer) (lit ''why'')) = Inr (replicate 4000 97)"
proof -
  have "py_strip (replicate 4000 97) = replicate 4000 97"
    by (simp add: py_strip_def py_isspace_def dropWhile_replicate)
  then show ?thesis
    by (simp add: loaded_state_long_answer get_ai_response_def retrieve_def as_retriever_def
        example_store_def pipe_chain_template long_model_def Let_def)
qed

section \<open>Startup\<close>







section \<open>The properties of the specification\<close>

text \<open>
  C6. Before the chain has been loaded (\<open>nexus_chain\<close> is \<open>None\<close>, as in the initial
  state) \<open>get_ai_response\<close> does nothing to the outside, so it performs no retrieval and
  no model call, and returns exactly the fixed "not loaded" string.
\<close>
theorem not_loaded_reply_without_effects:
  "nexus_chain st = None \<Longrightarrow>
   get_ai_response st question = ([], Inr (lit ''My core logic is not loaded. Please wait.''))"
  by (simp add: get_ai_response_def not_loaded_reply_def)

theorem not_loaded_reply_without_effects_witness:
  "nexus_chain initial_state = None \<and>
   get_ai_response initial_state (lit ''why'') =
     ([], Inr (lit ''My core logic is not loaded. Please wait.''))"
  using not_loaded_reply_without_effects [of initial_state "lit ''why''"]
  by (simp add: initial_state_def)




text \<open>
  C8. With the chain loaded and both retrievals returning (an absent retriever returns no
  documents), the chain is invoked once, with the context built from the two document
  lists; that context is exactly the fixed "no information" string if and only if both
  lists are empty.
\<close>
theorem fallback_context_iff_both_empty:
  assumes "nexus_chain st = Some ch"
    and "snd (retrieve Essays (essays_retriever st) q) = Inr eds"
    and "snd (retrieve Dossiers (dossiers_retriever st) q) = Inr dds"
  shows "chain_calls (fst (get_ai_response st q)) = [(build_context eds dds, q)]
         \<and> (build_context eds dds =
              lit ''No information was found in the internal knowledge base for this question.''
            \<longleftrightarrow> eds = [] \<and> dds = [])"
  using trace_retrieved(1) [OF assms] build_context_fallback_iff [of eds dds]
  by (simp add: no_information_def)


theorem fallback_context_iff_both_empty_witness:
  "nexus_chain (loaded_state env_dossiers_empty) = Some (pipe_chain prompt_template_str example_model) \<and>
   snd (retrieve Essays (essays_retriever (loaded_state env_dossiers_empty)) (lit ''why'')) = Inr [] \<and>
   snd (retrieve Dossiers (dossiers_retriever (loaded_state env_dossiers_empty)) (lit ''why'')) = Inr [] \<and>
   chain_calls (fst (get_ai_response (loaded_state env_dossiers_empty) (lit ''why''))) =
     [(lit ''No information was found in the internal knowledge base for this question.'', lit ''why'')]"
proof -
  let ?st = "loaded_state env_dossiers_empty"
  have c: "nexus_chain ?st = Some (pipe_chain prompt_template_str example_model)"
    by (simp add: loaded_state_dossiers_empty)
  have e: "snd (retrieve Essays (essays_retriever ?st) (lit ''why'')) = Inr []"
    by (simp add: loaded_state_dossiers_empty retrieve_def)
  have d: "snd (retrieve Dossiers (dossiers_retriever ?st) (lit ''why'')) = Inr []"
    by (simp add: loaded_state_dossiers_empty retrieve_def as_retriever_def empty_store_def)
  from fallback_context_iff_both_empty [OF c e d] c e d show ?thesis by simp
qed

text \<open>
  C3, as stated, fails: \<open>except Exception\<close> does not catch a cancellation met at the
  awaited model invocation, and the retrievals stand before the \<open>try\<close>; in both cases
  an exception leaves \<open>get_ai_response\<close> although the chain is loaded.
\<close>

theorem uncaught_exceptions_counterexample:
  "nexus_chain (loaded_state env_model_cancelled) \<noteq> None \<and>
   snd (get_ai_response (loaded_state env_model_cancelled) (lit ''why'')) =
     Inl (Not_Exception (lit ''asyncio.CancelledError'')) \<and>
   nexus_chain (loaded_state env_search_fails) \<noteq> None \<and>
   snd (get_ai_response (loaded_state env_search_fails) (lit ''why'')) =
     Inl (Is_Exception (Exception (lit ''embedding service unavailable'')))"
  by (simp add: loaded_state_model_cancelled loaded_state_search_fails get_ai_response_def
      retrieve_def as_retriever_def example_store_def failing_store_def pipe_chain_template
      cancelled_model_def Let_def)

text \<open>
  C3, amended. With the chain loaded and both retrievals returned, if the model
  invocation raises an instance of \<open>Exception\<close>, \<open>get_ai_response\<close> does not propagate
  it: it prints the error as its last action and returns exactly the fixed error string.
  What the model invocation raises that is not an instance of \<open>Exception\<close>, and what a
  retrieval raises, is not caught and leaves \<open>get_ai_response\<close>.
\<close>

theorem model_Exception_gives_error_reply:
  assumes "nexus_chain st = Some ch"
  shows "(\<forall>eds dds e.
            snd (retrieve Essays (essays_retriever st) q) = Inr eds \<longrightarrow>
            snd (retrieve Dossiers (dossiers_retriever st) q) = Inr dds \<longrightarrow>
            ch (build_context eds dds) q = Inl (Is_Exception e) \<longrightarrow>
            snd (get_ai_response st q) = Inr (lit ''An error occurred while I was processing that thought.'')
            \<and> last (fst (get_ai_response st q)) = Print (lit ''Error during LLM generation: '' @ exn_str e))
         \<and> (\<forall>eds dds c.
            snd (retrieve Essays (essays_retriever st) q) = Inr eds \<longrightarrow>
            snd (retrieve Dossiers (dossiers_retriever st) q) = Inr dds \<longrightarrow>
            ch (build_context eds dds) q = Inl (Not_Exception c) \<longrightarrow>
            snd (get_ai_response st q) = Inl (Not_Exception c))
         \<and> (\<forall>e. snd (retrieve Essays (essays_retriever st) q) = Inl e \<longrightarrow>
                snd (get_ai_response st q) = Inl (Is_Exception e))
         \<and> (\<forall>eds e.
            snd (retrieve Essays (essays_retriever st) q) = Inr eds \<longrightarrow>
            snd (retrieve Dossiers (dossiers_retriever st) q) = Inl e \<longrightarrow>
            snd (get_ai_response st q) = Inl (Is_Exception e))"
proof (intro conjI allI impI)
  fix eds dds e
  assume r: "snd (retrieve Essays (essays_retriever st) q) = Inr eds"
    "snd (retrieve Dossiers (dossiers_retriever st) q) = Inr dds"
    and m: "ch (build_context eds dds) q = Inl (Is_Exception e)"
  show "snd (get_ai_response st q) = Inr (lit ''An error occurred while I was processing that thought.'')"
    using m by (simp add: get_ai_response_retrieved [OF assms r] error_reply_def)
  show "last (fst (get_ai_response st q)) = Print (lit ''Error during LLM generation: '' @ exn_str e)"
    using m by (simp add: get_ai_response_retrieved [OF assms r])
next
  fix eds dds c
  assume r: "snd (retrieve Essays (essays_retriever st) q) = Inr eds"
    "snd (retrieve Dossiers (dossiers_retriever st) q) = Inr dds"
    and m: "ch (build_context eds dds) q = Inl (Not_Exception c)"
  show "snd (get_ai_response st q) = Inl (Not_Exception c)"
    using m by (simp add: get_ai_response_retrieved [OF assms r])
next
  fix e
  assume "snd (retrieve Essays (essays_retriever st) q) = Inl e"
  with assms show "snd (get_ai_response st q) = Inl (Is_Exception e)"
    by (cases "retrieve Essays (essays_retriever st) q") (simp add: get_ai_response_def Let_def)
next
  fix eds e
  assume "snd (retrieve Essays (essays_retriever st) q) = Inr eds"
    and "snd (retrieve Dossiers (dossiers_retriever st) q) = Inl e"
  with assms show "snd (get_ai_response st q) = Inl (Is_Exception e)"
    by (cases "retrieve Essays (essays_retriever st) q"; cases "retrieve Dossiers (dossiers_retriever st) q")
       (simp add: get_ai_response_def Let_def)
qed

theorem model_Exception_gives_error_reply_witness:
  "nexus_chain (loaded_state env_model_fails) = Some (pipe_chain prompt_template_str failing_model) \<and>
   snd (get_ai_response (loaded_state env_model_fails) (lit ''why'')) =
     Inr (lit ''An error occurred while I was processing that thought.'') \<and>
   last (fst (get_ai_response (loaded_state env_model_fails) (lit ''why''))) =
     Print (lit ''Error during LLM generation: quota exceeded'') \<and>
   nexus_chain (loaded_state env_model_cancelled) = Some (pipe_chain prompt_template_str cancelled_model) \<and>
   snd (get_ai_response (loaded_state env_model_cancelled) (lit ''why'')) =
     Inl (Not_Exception (lit ''asyncio.CancelledError'')) \<and>
   nexus_chain (loaded_state env_search_fails) = Some (pipe_chain prompt_template_str example_model) \<and>
   snd (get_ai_response (loaded_state env_search_fails) (lit ''why'')) =
     Inl (Is_Exception (Exception (lit ''embedding service unavailable''))) \<and>
   nexus_chain (loaded_state env_dossiers_search_fails) =
     Some (pipe_chain prompt_template_str example_model) \<and>
   snd (get_ai_response (loaded_state env_dossiers_search_fails) (lit ''why'')) =
     Inl (Is_Exception (Exception (lit ''embedding service unavailable'')))"
proof -
  let ?q = "lit ''why''"
  let ?eds = "[example_doc ''a.txt'' ''alpha'', example_doc ''b.txt'' ''beta'', example_doc ''c.txt'' ''gamma'']"
  let ?dds = "[example_doc ''a.txt'' ''alpha'', example_doc ''b.txt'' ''beta'']"
  let ?boom = "Exception (lit ''embedding service unavailable'')"
  \<comment> \<open>the model raises an instance of Exception\<close>
  let ?s1 = "loaded_state env_model_fails"
  have c1: "nexus_chain ?s1 = Some (pipe_chain prompt_template_str failing_model)"
    by (simp add: loaded_state_model_fails)
  have e1: "snd (retrieve Essays (essays_retriever ?s1) ?q) = Inr ?eds"
    and d1: "snd (retrieve Dossiers (dossiers_retriever ?s1) ?q) = Inr ?dds"
    by (simp_all add: loaded_state_model_fails retrieve_def as_retriever_def example_store_def)
  have m1: "pipe_chain prompt_template_str failing_model (build_context ?eds ?dds) ?q
             = Inl (Is_Exception (Exception (lit ''quota exceeded'')))"
    by (simp add: pipe_chain_template failing_model_def)
  have l: "lit ''Error during LLM generation: '' @ exn_str (Exception (lit ''quota exceeded''))
            = lit ''Error during LLM generation: quota exceeded''"
    by (simp add: lit_def)
  from model_Exception_gives_error_reply [OF c1, of ?q] e1 d1 m1
  have r1: "snd (get_ai_response ?s1 ?q) =
          Inr (lit ''An error occurred while I was processing that thought.'')
        \<and> last (fst (get_ai_response ?s1 ?q)) =
          Print (lit ''Error during LLM generation: '' @ exn_str (Exception (lit ''quota exceeded'')))"
    by blast
  \<comment> \<open>the model invocation is cancelled\<close>
  let ?s2 = "loaded_state env_model_cancelled"
  have c2: "nexus_chain ?s2 = Some (pipe_chain prompt_template_str cancelled_model)"
    by (simp add: loaded_state_model_cancelled)
  have e2: "snd (retrieve Essays (essays_retriever ?s2) ?q) = Inr ?eds"
    and d2: "snd (retrieve Dossiers (dossiers_retriever ?s2) ?q) = Inr ?dds"
    by (simp_all add: loaded_state_model_cancelled retrieve_def as_retriever_def example_store_def)
  have m2: "pipe_chain prompt_template_str cancelled_model (build_context ?eds ?dds) ?q
             = Inl (Not_Exception (lit ''asyncio.CancelledError''))"
    by (simp add: pipe_chain_template cancelled_model_def)
  from model_Exception_gives_error_reply [OF c2, of ?q] e2 d2 m2
  have r2: "snd (get_ai_response ?s2 ?q) = Inl (Not_Exception (lit ''asyncio.CancelledError''))"
    by blast
  \<comment> \<open>the essays search raises\<close>
  let ?s3 = "loaded_state env_search_fails"
  have c3: "nexus_chain ?s3 = Some (pipe_chain prompt_template_str example_model)"
    by (simp add: loaded_state_search_fails)
  have e3: "snd (retrieve Essays (essays_retriever ?s3) ?q) = Inl ?boom"
    by (simp add: loaded_state_search_fails retrieve_def as_retriever_def failing_store_def)
  from model_Exception_gives_error_reply [OF c3, of ?q] e3
  have r3: "snd (get_ai_response ?s3 ?q) = Inl (Is_Exception ?boom)"
    by blast
  \<comment> \<open>the essays search returns and the dossiers search raises\<close>
  let ?s4 = "loaded_state env_dossiers_search_fails"
  have c4: "nexus_chain ?s4 = Some (pipe_chain prompt_template_str example_model)"
    by (simp add: loaded_state_dossiers_search_fails)
  have e4: "snd (retrieve Essays (essays_retriever ?s4) ?q) = Inr ?eds"
    by (simp add: loaded_state_dossiers_search_fails retrieve_def as_retriever_def example_store_def)
  have d4: "snd (retrieve Dossiers (dossiers_retriever ?s4) ?q) = Inl ?boom"
    by (simp add: loaded_state_dossiers_search_fails retrieve_def as_retriever_def failing_store_def)
  from model_Exception_gives_error_reply [OF c4, of ?q] e4 d4
  have r4: "snd (get_ai_response ?s4 ?q) = Inl (Is_Exception ?boom)"
    by blast
  from r1 r2 r3 r4 c1 c2 c3 c4 l show ?thesis by simp
qed



text \<open>
  C2. The chain that \<open>load_bot_brains\<close> builds sends the model a prompt that holds the
  context and the question, and \<open>get_ai_response\<close> answers from what the model returns
  on the prompt that holds the context built from the retrieved documents. When one of the document lists is not empty, the context is
  the essays section (its header, then the passages) followed by the dossiers section
  (its header, then the passages), each section present when its list is not empty. So
  every essay passage stands under the essays header, every dossier passage under the
  dossiers header, every essay passage before the dossiers header and every dossier
  passage, and a passage starts with the source metadata of its document.
\<close>

theorem prompt_holds_question_and_structured_context:
  "(fst (snd (load_bot_brains env st)) \<longrightarrow>
      nexus_chain (snd (snd (load_bot_brains env st))) =
        Some (pipe_chain prompt_template_str (chat_model env)))
   \<and> pipe_chain prompt_template_str model ctx q = model (prompt_head @ ctx @ prompt_mid @ q @ prompt_tail)
   \<and> (nexus_chain st' = Some (pipe_chain prompt_template_str model) \<longrightarrow>
        snd (retrieve Essays (essays_retriever st') q) = Inr eds \<longrightarrow>
        snd (retrieve Dossiers (dossiers_retriever st') q) = Inr dds \<longrightarrow>
        snd (get_ai_response st' q) =
          (case model (prompt_head @ build_context eds dds @ prompt_mid @ q @ prompt_tail) of
             Inr out \<Rightarrow> Inr (py_strip out)
           | Inl (Is_Exception e) \<Rightarrow> Inr error_reply
           | Inl (Not_Exception c) \<Rightarrow> Inl (Not_Exception c)))
   \<and> (eds \<noteq> [] \<or> dds \<noteq> [] \<longrightarrow>
        build_context eds dds =
          (if eds = [] then []
           else lit ''--- PRIMARY TRUTH (FROM ESSAYS) ---'' @ [10] @ py_join [10, 10] (map format_doc eds))
          @ (if dds = [] then []
             else [10, 10] @ lit ''--- SUPPORTING PERSPECTIVES (FROM DOSSIERS) ---'' @ [10]
                  @ py_join [10, 10] (map format_doc dds)))
   \<and> (\<forall>e \<in> set eds. \<exists>a b.
         build_context eds dds =
           lit ''--- PRIMARY TRUTH (FROM ESSAYS) ---'' @ [10] @ a @ format_doc e @ b)
   \<and> (\<forall>d \<in> set dds. \<exists>a b c.
         build_context eds dds =
           a @ lit ''--- SUPPORTING PERSPECTIVES (FROM DOSSIERS) ---'' @ [10] @ b @ format_doc d @ c)
   \<and> (\<forall>e \<in> set eds. \<forall>d \<in> set dds. \<exists>a b c f.
         build_context eds dds =
           lit ''--- PRIMARY TRUTH (FROM ESSAYS) ---'' @ [10] @ a @ format_doc e @ b
           @ lit ''--- SUPPORTING PERSPECTIVES (FROM DOSSIERS) ---'' @ [10] @ c @ format_doc d @ f)
   \<and> format_doc doc =
        lit ''Source: '' @ (case metadata doc (lit ''source'') of None \<Rightarrow> lit ''N/A'' | Some s \<Rightarrow> s)
        @ [10] @ lit ''Content: '' @ page_content doc"
proof (intro conjI ballI impI)
  show "pipe_chain prompt_template_str model ctx q = model (prompt_head @ ctx @ prompt_mid @ q @ prompt_tail)"
    by (rule pipe_chain_template)
  show "format_doc doc =
        lit ''Source: '' @ (case metadata doc (lit ''source'') of None \<Rightarrow> lit ''N/A'' | Some s \<Rightarrow> s)
        @ [10] @ lit ''Content: '' @ page_content doc"
    by (simp add: format_doc_def)
next
  assume "fst (snd (load_bot_brains env st))"
  then show "nexus_chain (snd (snd (load_bot_brains env st))) =
        Some (pipe_chain prompt_template_str (chat_model env))"
    by (simp add: load_bot_brains_chain)
next
  assume c: "nexus_chain st' = Some (pipe_chain prompt_template_str model)"
    and r: "snd (retrieve Essays (essays_retriever st') q) = Inr eds"
      "snd (retrieve Dossiers (dossiers_retriever st') q) = Inr dds"
  show "snd (get_ai_response st' q) =
          (case model (prompt_head @ build_context eds dds @ prompt_mid @ q @ prompt_tail) of
             Inr out \<Rightarrow> Inr (py_strip out)
           | Inl (Is_Exception e) \<Rightarrow> Inr error_reply
           | Inl (Not_Exception c) \<Rightarrow> Inl (Not_Exception c))"
    by (simp add: get_ai_response_retrieved [OF c r] pipe_chain_template Let_def
        split: sum.splits base_exn.splits)
next
  assume "eds \<noteq> [] \<or> dds \<noteq> []"
  then show "build_context eds dds =
          (if eds = [] then []
           else lit ''--- PRIMARY TRUTH (FROM ESSAYS) ---'' @ [10] @ py_join [10, 10] (map format_doc eds))
          @ (if dds = [] then []
             else [10, 10] @ lit ''--- SUPPORTING PERSPECTIVES (FROM DOSSIERS) ---'' @ [10]
                  @ py_join [10, 10] (map format_doc dds))"
    by (auto simp: build_context_sections essays_header_def dossiers_header_def)
next
  fix e assume e: "e \<in> set eds"
  then have ne: "eds \<noteq> []" by auto
  from build_context_essay_passage [OF e] obtain a b
    where j: "py_join [10, 10] (map format_doc eds) = a @ format_doc e @ b" by blast
  have "build_context eds dds =
      lit ''--- PRIMARY TRUTH (FROM ESSAYS) ---'' @ [10] @ a @ format_doc e @
        (b @ (if dds = [] then [] else dossiers_header @ py_join [10, 10] (map format_doc dds)))"
    using ne j by (simp add: build_context_sections essays_header_def)
  then show "\<exists>a b. build_context eds dds =
           lit ''--- PRIMARY TRUTH (FROM ESSAYS) ---'' @ [10] @ a @ format_doc e @ b"
    by blast
  fix d assume d: "d \<in> set dds"
  then have nd: "dds \<noteq> []" by auto
  from build_context_essay_passage [OF d] obtain c f
    where k: "py_join [10, 10] (map format_doc dds) = c @ format_doc d @ f" by blast
  have "build_context eds dds =
      lit ''--- PRIMARY TRUTH (FROM ESSAYS) ---'' @ [10] @ a @ format_doc e @ (b @ [10, 10])
        @ lit ''--- SUPPORTING PERSPECTIVES (FROM DOSSIERS) ---'' @ [10] @ c @ format_doc d @ f"
    using ne nd j k by (simp add: build_context_sections essays_header_def dossiers_header_def)
  then show "\<exists>a b c f. build_context eds dds =
           lit ''--- PRIMARY TRUTH (FROM ESSAYS) ---'' @ [10] @ a @ format_doc e @ b
           @ lit ''--- SUPPORTING PERSPECTIVES (FROM DOSSIERS) ---'' @ [10] @ c @ format_doc d @ f"
    by blast
next
  fix d assume d: "d \<in> set dds"
  then have nd: "dds \<noteq> []" by auto
  from build_context_essay_passage [OF d] obtain c f
    where k: "py_join [10, 10] (map format_doc dds) = c @ format_doc d @ f" by blast
  have "build_context eds dds =
      ((if eds = [] then [] else essays_header @ py_join [10, 10] (map format_doc eds)) @ [10, 10])
        @ lit ''--- SUPPORTING PERSPECTIVES (FROM DOSSIERS) ---'' @ [10] @ c @ format_doc d @ f"
    using nd k by (simp add: build_context_sections dossiers_header_def)
  then show "\<exists>a b c. build_context eds dds =
           a @ lit ''--- SUPPORTING PERSPECTIVES (FROM DOSSIERS) ---'' @ [10] @ b @ format_doc d @ c"
    by blast
qed


theorem prompt_holds_question_and_structured_context_witness:
  "fst (snd (load_bot_brains env_both initial_state)) \<and>
   nexus_chain (snd (snd (load_bot_brains env_both initial_state))) =
     Some (pipe_chain prompt_template_str (chat_model env_both)) \<and>
   nexus_chain (loaded_state env_dossiers_only) = Some (pipe_chain prompt_template_str example_model) \<and>
   snd (retrieve Essays (essays_retriever (loaded_state env_dossiers_only)) (lit ''why'')) = Inr [] \<and>
   snd (retrieve Dossiers (dossiers_retriever (loaded_state env_dossiers_only)) (lit ''why'')) =
     Inr [example_doc ''a.txt'' ''alpha'', example_doc ''b.txt'' ''beta''] \<and>
   snd (get_ai_response (loaded_state env_dossiers_only) (lit ''why'')) =
     (case example_model
        (prompt_head
         @ build_context [] [example_doc ''a.txt'' ''alpha'', example_doc ''b.txt'' ''beta'']
         @ prompt_mid @ lit ''why'' @ prompt_tail) of
        Inr out \<Rightarrow> Inr (py_strip out)
      | Inl (Is_Exception e) \<Rightarrow> Inr error_reply
      | Inl (Not_Exception c) \<Rightarrow> Inl (Not_Exception c)) \<and>
   build_context [example_doc ''a.txt'' ''alpha''] [example_doc ''b.txt'' ''beta''] =
     lit ''--- PRIMARY TRUTH (FROM ESSAYS) ---'' @ [10]
     @ lit ''Source: a.txt'' @ [10] @ lit ''Content: alpha'' @ [10, 10]
     @ lit ''--- SUPPORTING PERSPECTIVES (FROM DOSSIERS) ---'' @ [10]
     @ lit ''Source: b.txt'' @ [10] @ lit ''Content: beta''"
proof -
  have f: "format_doc (example_doc ''a.txt'' ''alpha'') = lit ''Source: a.txt'' @ [10] @ lit ''Content: alpha''"
    "format_doc (example_doc ''b.txt'' ''beta'') = lit ''Source: b.txt'' @ [10] @ lit ''Content: beta''"
    by (simp_all add: format_doc_def example_doc_def lit_def)
  let ?st = "loaded_state env_dossiers_only"
  let ?dds = "[example_doc ''a.txt'' ''alpha'', example_doc ''b.txt'' ''beta'']"
  have c: "nexus_chain ?st = Some (pipe_chain prompt_template_str example_model)"
    by (simp add: loaded_state_dossiers_only)
  have e: "snd (retrieve Essays (essays_retriever ?st) (lit ''why'')) = Inr []"
    by (simp add: loaded_state_dossiers_only retrieve_def)
  have d: "snd (retrieve Dossiers (dossiers_retriever ?st) (lit ''why'')) = Inr ?dds"
    by (simp add: loaded_state_dossiers_only retrieve_def as_retriever_def example_store_def)
  have g: "snd (get_ai_response ?st (lit ''why'')) =
     (case example_model (prompt_head @ build_context [] ?dds @ prompt_mid @ lit ''why'' @ prompt_tail) of
        Inr out \<Rightarrow> Inr (py_strip out)
      | Inl (Is_Exception e) \<Rightarrow> Inr error_reply
      | Inl (Not_Exception c) \<Rightarrow> Inl (Not_Exception c))"
    using prompt_holds_question_and_structured_context
      [of env_both initial_state example_model "[]" "lit ''why''" ?st "[]" ?dds] c e d
    by blast
  from prompt_holds_question_and_structured_context
    [of env_both initial_state example_model "[]" "[]" initial_state
        "[example_doc ''a.txt'' ''alpha'']" "[example_doc ''b.txt'' ''beta'']"
        "example_doc ''a.txt'' ''alpha''"]
    load_bot_brains_both f c e d g
  show ?thesis by simp
qed

text \<open>
  C7. The messages \<open>ask\<close> sends are those of \<open>send_answer\<close> for the answer. An
  answer of at most 2000 characters is sent as one message. A longer one is sent as a
  notice followed by the consecutive 1990-character slices of the answer, each between
  two triple backticks; the slices concatenated are the answer, and no message sent is
  longer than 2000 characters.
\<close>
theorem ask_sends_answer_in_parts:
  assumes "snd (get_ai_response st q) = Inr answer"
  shows "sent (fst (ask st q)) = send_answer answer
    \<and> (length answer \<le> 2000 \<longrightarrow> send_answer answer = [answer])
    \<and> (2000 < length answer \<longrightarrow>
          send_answer answer =
            lit ''The answer is long. Sending in parts:''
            # map (\<lambda>k. lit ''```'' @ py_slice answer (1990 * k) (1990 * k + 1990) @ lit ''```'')
                [0..<(length answer + 1989) div 1990])
    \<and> concat (map (\<lambda>k. py_slice answer (1990 * k) (1990 * k + 1990))
                [0..<(length answer + 1989) div 1990]) = answer
    \<and> (\<forall>m \<in> set (send_answer answer). length m \<le> 2000)"
proof (intro conjI impI ballI)
  show "sent (fst (ask st q)) = send_answer answer"
    using assms by (rule sent_ask)
  show "length answer \<le> 2000 \<Longrightarrow> send_answer answer = [answer]"
    by (simp add: send_answer_def)
  show "2000 < length answer \<Longrightarrow>
        send_answer answer =
          lit ''The answer is long. Sending in parts:''
          # map (\<lambda>k. lit ''```'' @ py_slice answer (1990 * k) (1990 * k + 1990) @ lit ''```'')
              [0..<(length answer + 1989) div 1990]"
    using send_parts_from [of answer 0] by (simp add: send_answer_def)
  show "concat (map (\<lambda>k. py_slice answer (1990 * k) (1990 * k + 1990))
                [0..<(length answer + 1989) div 1990]) = answer"
  proof -
    have "length answer \<le> 1990 * ((length answer + 1989) div 1990)" by arith
    then show ?thesis by (simp add: concat_slices)
  qed
next
  fix m assume m: "m \<in> set (send_answer answer)"
  show "length m \<le> 2000"
  proof (cases "length answer \<le> 2000")
    case True
    with m show ?thesis by (simp add: send_answer_def)
  next
    case False
    with m have "m = lit ''The answer is long. Sending in parts:'' \<or> m \<in> set (send_parts answer 0)"
      by (simp add: send_answer_def)
    then show ?thesis
    proof
      assume "m = lit ''The answer is long. Sending in parts:''"
      then show ?thesis by (simp add: lit_def)
    next
      assume "m \<in> set (send_parts answer 0)"
      then obtain k where "m = lit ''```'' @ py_slice answer (0 + 1990 * k) (0 + 1990 * k + 1990) @ lit ''```''"
        unfolding send_parts_from by auto
      then show ?thesis
        using length_py_slice [of answer "0 + 1990 * k" 1990] by (simp add: lit_def)
    qed
  qed
qed

theorem ask_sends_answer_in_parts_witness:
  "snd (get_ai_response (loaded_state env_long_answer) (lit ''why'')) = Inr (replicate 4000 97) \<and>
   sent (fst (ask (loaded_state env_long_answer) (lit ''why''))) =
     [lit ''The answer is long. Sending in parts:'',
      lit ''```'' @ replicate 1990 97 @ lit ''```'',
      lit ''```'' @ replicate 1990 97 @ lit ''```'',
      lit ''```'' @ replicate 20 97 @ lit ''```'']"
proof -
  have u: "[0..<(length (replicate 4000 (97::nat)) + 1989) div 1990] = [0, 1, 2]"
    by (simp add: upt_rec)
  have "py_slice (replicate 4000 (97::nat)) 0 1990 = replicate 1990 97"
    "py_slice (replicate 4000 (97::nat)) 1990 3980 = replicate 1990 97"
    "py_slice (replicate 4000 (97::nat)) 3980 5970 = replicate 20 97"
    by (simp_all add: py_slice_def)
  with ask_sends_answer_in_parts [OF long_answer] long_answer u show ?thesis
    by simp
qed



end
